theory Spec2Isabelle
  imports Main "HOL-Library.Sublist"
begin

section \<open>JavaScript values used by the availability endpoints\<close>

text \<open>
  The two endpoints \<^verbatim>\<open>pages/api/availability/[user]/slot.ts\<close> (the slot-fetch variant) and
  the second handler of the repository (the availability variant) compute with JavaScript
  numbers that are either integers or \<^verbatim>\<open>NaN\<close>: \<^verbatim>\<open>parseInt\<close> yields an integer or
  \<^verbatim>\<open>NaN\<close>, and hours, minutes, weekdays and database columns are integers. Integers are
  kept exact (\<open>int\<close>); the rounding of doubles beyond \<open>2^53\<close> is outside this model.
\<close>

datatype jsnum = NaN | Num int

fun js_mul :: "jsnum \<Rightarrow> jsnum \<Rightarrow> jsnum" where
  "js_mul (Num a) (Num b) = Num (a * b)"
| "js_mul _ _ = NaN"

fun js_add :: "jsnum \<Rightarrow> jsnum \<Rightarrow> jsnum" where
  "js_add (Num a) (Num b) = Num (a + b)"
| "js_add _ _ = NaN"

fun js_sub :: "jsnum \<Rightarrow> jsnum \<Rightarrow> jsnum" where
  "js_sub (Num a) (Num b) = Num (a - b)"
| "js_sub _ _ = NaN"

text \<open>Every comparison with \<^verbatim>\<open>NaN\<close> is false.\<close>

fun js_ge :: "jsnum \<Rightarrow> jsnum \<Rightarrow> bool" where
  "js_ge (Num a) (Num b) = (a \<ge> b)"
| "js_ge _ _ = False"

fun js_le :: "jsnum \<Rightarrow> jsnum \<Rightarrow> bool" where
  "js_le (Num a) (Num b) = (a \<le> b)"
| "js_le _ _ = False"

subsection \<open>\<^verbatim>\<open>String.prototype.split\<close> and array indexing\<close>

text \<open>
  \<^verbatim>\<open>s.split(":")\<close> cuts at every separator and always returns at least one piece.
  Strings are lists of \<open>char\<close>; the schedule strings are taken to be ASCII.
\<close>

fun split :: "char \<Rightarrow> string \<Rightarrow> string list" where
  "split sep [] = [[]]"
| "split sep (c # cs) =
     (if c = sep then [] # split sep cs
      else (case split sep cs of
              [] \<Rightarrow> [[c]]
            | w # ws \<Rightarrow> (c # w) # ws))"

text \<open>\<^verbatim>\<open>a[i]\<close> is \<^verbatim>\<open>undefined\<close> (here \<open>None\<close>) when \<open>i\<close> is out of range.\<close>

fun index :: "'a list \<Rightarrow> nat \<Rightarrow> 'a option" where
  "index [] i = None"
| "index (x # xs) 0 = Some x"
| "index (x # xs) (Suc i) = index xs i"

subsection \<open>\<^verbatim>\<open>parseInt\<close> without a radix\<close>

definition isStrWhiteSpaceChar :: "char \<Rightarrow> bool" where
  "isStrWhiteSpaceChar c = ((of_char c :: nat) \<in> {9, 10, 11, 12, 13, 32})"

definition digitValue :: "char \<Rightarrow> nat option" where
  "digitValue c =
     (let n = (of_char c :: nat) in
      if 48 \<le> n \<and> n \<le> 57 then Some (n - 48)
      else if 97 \<le> n \<and> n \<le> 122 then Some (n - 87)
      else if 65 \<le> n \<and> n \<le> 90 then Some (n - 55)
      else None)"

definition isRadixDigit :: "nat \<Rightarrow> char \<Rightarrow> bool" where
  "isRadixDigit R c = (case digitValue c of None \<Rightarrow> False | Some d \<Rightarrow> d < R)"

definition mathInt :: "nat \<Rightarrow> string \<Rightarrow> int" where
  "mathInt R Z =
     foldl (\<lambda>acc c. case digitValue c of None \<Rightarrow> acc | Some d \<Rightarrow> acc * int R + int d) 0 Z"

text \<open>
  The steps of ECMAScript's \<^verbatim>\<open>parseInt(string)\<close>: trim leading white space, read a sign,
  strip a \<^verbatim>\<open>0x\<close> prefix (radix 16, otherwise 10), take the longest prefix of digits, and
  return \<^verbatim>\<open>NaN\<close> when that prefix is empty.
\<close>

definition parseIntString :: "string \<Rightarrow> jsnum" where
  "parseIntString inputString =
     (let S = dropWhile isStrWhiteSpaceChar inputString;
          sign = (if take 1 S = ''-'' then - 1 else 1 :: int);
          S1 = (if take 1 S = ''+'' \<or> take 1 S = ''-'' then drop 1 S else S);
          hex = (take 2 S1 = ''0x'' \<or> take 2 S1 = ''0X'');
          R = (if hex then 16 else 10);
          S2 = (if hex then drop 2 S1 else S1);
          Z = takeWhile (isRadixDigit R) S2
      in if Z = [] then NaN else Num (sign * mathInt R Z))"

text \<open>The argument \<^verbatim>\<open>undefined\<close> is first converted to the string \<^verbatim>\<open>"undefined"\<close>.\<close>

definition parseInt :: "string option \<Rightarrow> jsnum" where
  "parseInt v = (case v of None \<Rightarrow> parseIntString ''undefined'' | Some s \<Rightarrow> parseIntString s)"

subsection \<open>\<^verbatim>\<open>Array.prototype.sort\<close> with a comparator\<close>

text \<open>
  ECMAScript requires the sort to be stable, and treats a comparator result of \<^verbatim>\<open>NaN\<close>
  as \<open>0\<close>. For a consistent comparator this determines the result, and the insertion sort
  below computes it. When the comparator is inconsistent (as the subtraction of start times
  is once a start time is \<^verbatim>\<open>NaN\<close>) ECMAScript leaves the order to the implementation;
  the model then still returns a permutation of its input.
\<close>

fun positive :: "jsnum \<Rightarrow> bool" where
  "positive (Num v) = (v > 0)"
| "positive NaN = False"

fun sort_insert :: "('a \<Rightarrow> 'a \<Rightarrow> jsnum) \<Rightarrow> 'a \<Rightarrow> 'a list \<Rightarrow> 'a list" where
  "sort_insert comparefn x [] = [x]"
| "sort_insert comparefn x (y # ys) =
     (if positive (comparefn x y) then y # sort_insert comparefn x ys else x # y # ys)"

fun array_sort :: "('a \<Rightarrow> 'a \<Rightarrow> jsnum) \<Rightarrow> 'a list \<Rightarrow> 'a list" where
  "array_sort comparefn [] = []"
| "array_sort comparefn (x # xs) = sort_insert comparefn x (array_sort comparefn xs)"

section \<open>Data fetched from the database\<close>

text \<open>One \<^verbatim>\<open>{start, end}\<close> entry of \<^verbatim>\<open>freeBusyTimes[day]\<close>, both fields strings.\<close>

record time_entry =
  start :: string
  end' :: string

text \<open>
  A row of \<^verbatim>\<open>Schedule\<close>: \<^verbatim>\<open>freeBusyTimes\<close> is a nullable JSON object from weekday names to
  arrays of entries.
\<close>

record schedule =
  freeBusyTimes :: "(string \<rightharpoonup> time_entry list) option"

text \<open>The columns of \<^verbatim>\<open>rawUser\<close> that the handlers read.\<close>

record user =
  u_id :: int
  u_timeZone :: string
  u_startTime :: int
  u_endTime :: int
  u_Schedule :: "schedule list"
  u_minimumBookingNotice :: int

datatype booking_status = CANCELLED | ACCEPTED | REJECTED | PENDING

text \<open>Instants are milliseconds since the epoch, as \<^verbatim>\<open>dayjs().valueOf()\<close> gives them.\<close>

type_synonym instant = int

record booking =
  b_userId :: int
  b_status :: booking_status
  b_confirmed :: bool
  b_startTime :: instant
  b_endTime :: instant

text \<open>An element of \<^verbatim>\<open>workingHours\<close>: \<^verbatim>\<open>{days, startTime, endTime}\<close>.\<close>

record slot =
  days :: "int list"
  startTime :: jsnum
  endTime :: jsnum

text \<open>An element of \<^verbatim>\<open>busy\<close>.\<close>

record busy_slot =
  busy_startTime :: int
  busy_endTime :: int

text \<open>
  What a handler reads from outside: the user table (\<^verbatim>\<open>prisma.user.findUnique\<close> by
  username), the booking table, the clock at the two calls of \<^verbatim>\<open>dayjs()\<close>, and the
  time-zone database as the UTC offset in minutes of a zone at an instant.
\<close>

record env =
  users :: "string \<rightharpoonup> user"
  bookings :: "booking list"
  now :: instant
  now2 :: instant
  utcOffset :: "string \<Rightarrow> instant \<Rightarrow> int"

text \<open>
  The query of a request after \<^verbatim>\<open>dayjs(...)\<close> has parsed the two dates: \<open>None\<close> is a
  date for which \<^verbatim>\<open>isValid()\<close> is false.
\<close>

record request =
  q_user :: string
  q_dateFrom :: "instant option"
  q_dateTo :: "instant option"

section \<open>The date library\<close>

text \<open>
  \<^verbatim>\<open>d.tz(timeZone)\<close> followed by \<^verbatim>\<open>day()\<close>, \<^verbatim>\<open>hour()\<close> and \<^verbatim>\<open>minute()\<close> reads the wall
  clock of the zone at the instant. The epoch fell on a Thursday (weekday 4).
\<close>

definition tz :: "env \<Rightarrow> string \<Rightarrow> instant \<Rightarrow> int" where
  "tz e timeZone t = t + utcOffset e timeZone t * 60000"

definition day_of :: "int \<Rightarrow> int" where
  "day_of local = (local div 86400000 + 4) mod 7"

definition hour_of :: "int \<Rightarrow> int" where
  "hour_of local = (local mod 86400000) div 3600000"

definition minute_of :: "int \<Rightarrow> int" where
  "minute_of local = (local mod 3600000) div 60000"

text \<open>\<^verbatim>\<open>a.isAfter(b)\<close> compares the instants.\<close>

definition isAfter :: "instant \<Rightarrow> instant \<Rightarrow> bool" where
  "isAfter a b = (a > b)"

text \<open>\<^verbatim>\<open>a.diff(b, "hours")\<close>: the difference in hours, truncated towards zero.\<close>

definition diff_hours :: "instant \<Rightarrow> instant \<Rightarrow> int" where
  "diff_hours a b =
     (let d = a - b in if d < 0 then - ((- d) div 3600000) else d div 3600000)"

text \<open>\<^verbatim>\<open>d.add(n, "minutes")\<close>.\<close>

definition add_minutes :: "instant \<Rightarrow> int \<Rightarrow> instant" where
  "add_minutes t n = t + n * 60000"

section \<open>Building the working hours\<close>

text \<open>The array \<^verbatim>\<open>days\<close> of weekday names, paired with the index \<^verbatim>\<open>forEach\<close> passes.\<close>

definition day_names :: "(string \<times> int) list" where
  "day_names =
     [(''sunday'', 0), (''monday'', 1), (''tuesday'', 2), (''wednesday'', 3),
      (''thursday'', 4), (''friday'', 5), (''saturday'', 6)]"

text \<open>The callback of \<^verbatim>\<open>map\<close>: one entry of a weekday becomes one interval.\<close>

definition time_to_slot :: "int \<Rightarrow> time_entry \<Rightarrow> slot" where
  "time_to_slot idx time =
     (let start_parts = split CHR '':'' (start time);
          end_parts = split CHR '':'' (end' time);
          startTime' = js_add (js_mul (parseInt (index start_parts 0)) (Num 60))
                              (parseInt (index start_parts 1));
          endTime' = js_add (js_mul (parseInt (index end_parts 0)) (Num 60))
                            (parseInt (index end_parts 1))
      in \<lparr>days = [idx], startTime = startTime', endTime = endTime'\<rparr>)"

text \<open>\<^verbatim>\<open>schedule.freeBusyTimes?.[day]?.map(...) ?? []\<close> for one weekday.\<close>

definition times_of :: "schedule \<Rightarrow> string \<times> int \<Rightarrow> slot list" where
  "times_of sched d =
     (case freeBusyTimes sched of
        None \<Rightarrow> []
      | Some fb \<Rightarrow> (case fb (fst d) of
                     None \<Rightarrow> []
                   | Some entries \<Rightarrow> map (time_to_slot (snd d)) entries))"

text \<open>The body of the reducer: each weekday in turn pushes its intervals onto \<open>acc\<close>.\<close>

definition push_schedule :: "slot list \<Rightarrow> schedule \<Rightarrow> slot list" where
  "push_schedule acc sched = foldl (\<lambda>acc d. acc @ times_of sched d) acc day_names"

definition workhours :: "user \<Rightarrow> slot list" where
  "workhours rawUser = foldl push_schedule [] (u_Schedule rawUser)"

definition defaultAvailability :: "user \<Rightarrow> slot" where
  "defaultAvailability rawUser =
     \<lparr>days = [0, 1, 2, 3, 4, 5, 6],
      startTime = Num (u_startTime rawUser),
      endTime = Num (u_endTime rawUser)\<rparr>"

definition comparefn :: "slot \<Rightarrow> slot \<Rightarrow> jsnum" where
  "comparefn a b = js_sub (startTime a) (startTime b)"

text \<open>The list \<^verbatim>\<open>workingHours\<close> after \<^verbatim>\<open>workingHours.sort(...)\<close>.\<close>

definition workingHours :: "user \<Rightarrow> slot list" where
  "workingHours rawUser =
     array_sort comparefn
       (if length (workhours rawUser) \<noteq> 0 then workhours rawUser
        else [defaultAvailability rawUser])"

section \<open>Selecting the slots of a request window\<close>

definition array_includes :: "int list \<Rightarrow> int \<Rightarrow> bool" where
  "array_includes xs x = (x \<in> set xs)"

definition selectedSlots :: "slot list \<Rightarrow> int \<Rightarrow> int \<Rightarrow> int \<Rightarrow> slot list" where
  "selectedSlots wh day startTime' endTime' =
     filter (\<lambda>slot.
        array_includes (days slot) day \<and>
        js_ge (Num startTime') (startTime slot) \<and>
        js_le (Num startTime') (endTime slot) \<and>
        js_ge (Num endTime') (startTime slot) \<and>
        js_le (Num endTime') (endTime slot)) wh"

text \<open>The three coordinates the handlers read off the request window.\<close>

definition req_day :: "env \<Rightarrow> string \<Rightarrow> instant \<Rightarrow> int" where
  "req_day e timeZone dateFrom = day_of (tz e timeZone dateFrom)"

definition minute_of_day :: "env \<Rightarrow> string \<Rightarrow> instant \<Rightarrow> int" where
  "minute_of_day e timeZone t = hour_of (tz e timeZone t) * 60 + minute_of (tz e timeZone t)"

section \<open>The two handlers\<close>

datatype body =
    Message string
  | SlotBody string "busy_slot list" "slot list" bool
  | AvailabilityBody string "slot list" bool

text \<open>A handler either sends a response with a status code or throws.\<close>

datatype outcome = Respond nat body | Throw string

text \<open>The \<^verbatim>\<open>where\<close> clause of \<^verbatim>\<open>prisma.booking.findMany\<close>.\<close>

definition findMany :: "env \<Rightarrow> user \<Rightarrow> instant \<Rightarrow> instant \<Rightarrow> booking list" where
  "findMany e rawUser dateFrom dateTo =
     filter (\<lambda>b.
        b_userId b = u_id rawUser \<and>
        b_status b = ACCEPTED \<and>
        b_confirmed b \<and>
        b_startTime b \<ge> dateFrom \<and>
        b_startTime b \<le> dateTo) (bookings e)"

definition busy_of :: "env \<Rightarrow> string \<Rightarrow> booking \<Rightarrow> busy_slot" where
  "busy_of e timeZone b =
     \<lparr>busy_startTime = minute_of_day e timeZone (b_startTime b),
      busy_endTime = minute_of_day e timeZone (b_endTime b)\<rparr>"

text \<open>The slot-fetch variant, \<^verbatim>\<open>pages/api/availability/[user]/slot.ts\<close>.\<close>

definition slot_handler :: "env \<Rightarrow> request \<Rightarrow> outcome" where
  "slot_handler e req =
     (case (q_dateFrom req, q_dateTo req) of
        (Some dateFrom, Some dateTo) \<Rightarrow>
          if isAfter dateFrom dateTo then Respond 400 (Message ''Invalid time range given.'')
          else if diff_hours dateTo dateFrom \<ge> 24
            then Respond 400 (Message ''Cannot book a slot longer than 24 hours.'')
          else (case users e (q_user req) of
              None \<Rightarrow> Respond 404 (Message ''No User Found'')
            | Some rawUser \<Rightarrow>
                if isAfter (now e) dateFrom then Respond 400 (Message ''Cannot book past time.'')
                else if u_minimumBookingNotice rawUser \<noteq> 0 \<and>
                        isAfter (add_minutes (now2 e) (u_minimumBookingNotice rawUser)) dateFrom
                  then Respond 400 (Message ''Select a time after minimum notice period'')
                else
                  (let timeZone = u_timeZone rawUser;
                       wh = workingHours rawUser;
                       day = req_day e timeZone dateFrom;
                       startTime' = minute_of_day e timeZone dateFrom;
                       endTime' = minute_of_day e timeZone dateTo;
                       selected = selectedSlots wh day startTime' endTime';
                       found = findMany e rawUser dateFrom dateTo;
                       busy = map (busy_of e timeZone) found
                   in Respond 200
                        (SlotBody timeZone busy selected
                           (length selected \<noteq> 0 \<and> \<not> length found \<noteq> 0))))
      | _ \<Rightarrow> Respond 400 (Message ''Invalid time range given.''))"

text \<open>
  The availability variant. Its file does not load the time-zone plug-in of the date
  library; \<^verbatim>\<open>tz\<close> is taken to have been loaded by another module of the process.
\<close>

definition availability_handler :: "env \<Rightarrow> request \<Rightarrow> outcome" where
  "availability_handler e req =
     (case (q_dateFrom req, q_dateTo req) of
        (Some dateFrom, Some dateTo) \<Rightarrow>
          if isAfter dateFrom dateTo then Respond 400 (Message ''Invalid time range given.'')
          else (case users e (q_user req) of
              None \<Rightarrow> Throw ''No user found''
            | Some rawUser \<Rightarrow>
                (let timeZone = u_timeZone rawUser;
                     wh = workingHours rawUser;
                     day = req_day e timeZone dateFrom;
                     startTime' = minute_of_day e timeZone dateFrom;
                     endTime' = minute_of_day e timeZone dateTo;
                     selected = selectedSlots wh day startTime' endTime'
                 in Respond 200 (AvailabilityBody timeZone selected (length selected \<noteq> 0))))
      | _ \<Rightarrow> Respond 400 (Message ''Invalid time range given.''))"

section \<open>Notions of the specification\<close>

text \<open>
  A booking touches a window when the two closed intervals of instants share an instant.
  This is the reading of the specification; the handlers do not compute it.
\<close>

definition touches_window :: "booking \<Rightarrow> instant \<Rightarrow> instant \<Rightarrow> bool" where
  "touches_window b dateFrom dateTo = (b_startTime b \<le> dateTo \<and> dateFrom \<le> b_endTime b)"

text \<open>
  A list of intervals in ascending order of \<^verbatim>\<open>startTime\<close>: each start time is
  \<^verbatim>\<open><=\<close> every later one, compared as JavaScript compares numbers.
\<close>

definition ascending :: "slot list \<Rightarrow> bool" where
  "ascending xs = sorted_wrt (\<lambda>a b. js_le (startTime a) (startTime b)) xs"

section \<open>Example data\<close>

text \<open>A user without schedule rows, working 09:00 to 17:00 in UTC.\<close>

definition alice :: user where
  "alice = \<lparr>u_id = 1, u_timeZone = ''UTC'', u_startTime = 540, u_endTime = 1020,
            u_Schedule = [], u_minimumBookingNotice = 0\<rparr>"

text \<open>A user whose Monday has an entry with the start string \<^verbatim>\<open>"9"\<close>.\<close>

definition bob_schedule :: schedule where
  "bob_schedule = \<lparr>freeBusyTimes = Some [''monday'' \<mapsto>
     [\<lparr>start = ''10:00'', end' = ''11:00''\<rparr>,
      \<lparr>start = ''9'', end' = ''17:00''\<rparr>,
      \<lparr>start = ''08:00'', end' = ''09:00''\<rparr>]]\<rparr>"

definition bob :: user where
  "bob = \<lparr>u_id = 2, u_timeZone = ''UTC'', u_startTime = 540, u_endTime = 1020,
          u_Schedule = [bob_schedule], u_minimumBookingNotice = 0\<rparr>"

text \<open>A user with well-formed entries, two of them starting at 09:00.\<close>

definition carol_schedule :: schedule where
  "carol_schedule = \<lparr>freeBusyTimes = Some [''monday'' \<mapsto>
     [\<lparr>start = ''13:00'', end' = ''17:00''\<rparr>,
      \<lparr>start = ''09:00'', end' = ''12:00''\<rparr>],
     ''tuesday'' \<mapsto> [\<lparr>start = ''09:00'', end' = ''11:30''\<rparr>]]\<rparr>"

definition carol :: user where
  "carol = \<lparr>u_id = 3, u_timeZone = ''UTC'', u_startTime = 0, u_endTime = 60,
            u_Schedule = [carol_schedule], u_minimumBookingNotice = 120\<rparr>"

text \<open>An accepted, confirmed booking of alice on Monday 2024-01-08, 09:30 to 10:30 UTC.\<close>

definition early_booking :: booking where
  "early_booking = \<lparr>b_userId = 1, b_status = ACCEPTED, b_confirmed = True,
                    b_startTime = 1704706200000, b_endTime = 1704709800000\<rparr>"

text \<open>The clock stands at 2024-01-08 07:46:40 UTC.\<close>

definition db :: env where
  "db = \<lparr>users = [''alice'' \<mapsto> alice, ''bob'' \<mapsto> bob, ''carol'' \<mapsto> carol],
         bookings = [early_booking],
         now = 1704700000000, now2 = 1704700000001,
         utcOffset = (\<lambda>timeZone t. 0)\<rparr>"

text \<open>Monday 2024-01-08, 10:00 to 10:30 UTC.\<close>

definition half_hour :: "string \<Rightarrow> request" where
  "half_hour name = \<lparr>q_user = name, q_dateFrom = Some 1704708000000,
                     q_dateTo = Some 1704709800000\<rparr>"

text \<open>Monday 2024-01-08, 09:00 to 17:00 UTC: the bounds of alice's working hours.\<close>

definition whole_day :: "string \<Rightarrow> request" where
  "whole_day name = \<lparr>q_user = name, q_dateFrom = Some 1704704400000,
                     q_dateTo = Some 1704733200000\<rparr>"

text \<open>A window of length zero, at 10:00.\<close>

definition empty_window :: "string \<Rightarrow> request" where
  "empty_window name = \<lparr>q_user = name, q_dateFrom = Some 1704708000000,
                        q_dateTo = Some 1704708000000\<rparr>"

text \<open>A window of 25 hours from 10:00.\<close>

definition long_window :: "string \<Rightarrow> request" where
  "long_window name = \<lparr>q_user = name, q_dateFrom = Some 1704708000000,
                       q_dateTo = Some 1704798000000\<rparr>"

text \<open>Half an hour from 05:00, which the clock has passed.\<close>

definition past_window :: "string \<Rightarrow> request" where
  "past_window name = \<lparr>q_user = name, q_dateFrom = Some 1704690000000,
                       q_dateTo = Some 1704691800000\<rparr>"

text \<open>A window that ends before it starts.\<close>

definition inverted_window :: "string \<Rightarrow> request" where
  "inverted_window name = \<lparr>q_user = name, q_dateFrom = Some 1704709800000,
                           q_dateTo = Some 1704708000000\<rparr>"

lemmas example_defs =
  alice_def bob_def bob_schedule_def carol_def carol_schedule_def early_booking_def db_def
  half_hour_def whole_day_def empty_window_def long_window_def past_window_def
  inverted_window_def

lemmas time_defs =
  isAfter_def diff_hours_def add_minutes_def tz_def day_of_def hour_of_def minute_of_def
  req_day_def minute_of_day_def

lemmas parse_defs =
  time_to_slot_def parseInt_def parseIntString_def isStrWhiteSpaceChar_def isRadixDigit_def
  digitValue_def mathInt_def

lemmas builder_defs =
  workingHours_def workhours_def push_schedule_def day_names_def times_of_def
  defaultAvailability_def comparefn_def

section \<open>Auxiliary facts\<close>

subsection \<open>The handlers on a request that passes their checks\<close>

lemma set_selectedSlots:
  "s \<in> set (selectedSlots wh d fm tm) \<longleftrightarrow>
     s \<in> set wh \<and> d \<in> set (days s) \<and>
     (\<exists>lo hi. startTime s = Num lo \<and> endTime s = Num hi \<and>
        lo \<le> fm \<and> fm \<le> hi \<and> lo \<le> tm \<and> tm \<le> hi)"
  by (cases "startTime s"; cases "endTime s") (auto simp: selectedSlots_def array_includes_def)

lemma diff_hours_ge_24: "b \<le> a \<Longrightarrow> (diff_hours a b \<ge> 24) = (a - b \<ge> 86400000)"
  unfolding diff_hours_def Let_def by auto

lemma slot_handler_passed:
  assumes "q_dateFrom req = Some dateFrom" and "q_dateTo req = Some dateTo"
    and "users e (q_user req) = Some rawUser"
    and "dateFrom \<le> dateTo" and "dateTo - dateFrom < 86400000"
    and "now e \<le> dateFrom"
    and "u_minimumBookingNotice rawUser = 0 \<or>
         now2 e + u_minimumBookingNotice rawUser * 60000 \<le> dateFrom"
  shows "slot_handler e req =
     Respond 200 (SlotBody (u_timeZone rawUser)
       (map (busy_of e (u_timeZone rawUser)) (findMany e rawUser dateFrom dateTo))
       (selectedSlots (workingHours rawUser) (req_day e (u_timeZone rawUser) dateFrom)
          (minute_of_day e (u_timeZone rawUser) dateFrom)
          (minute_of_day e (u_timeZone rawUser) dateTo))
       (selectedSlots (workingHours rawUser) (req_day e (u_timeZone rawUser) dateFrom)
          (minute_of_day e (u_timeZone rawUser) dateFrom)
          (minute_of_day e (u_timeZone rawUser) dateTo) \<noteq> [] \<and>
        findMany e rawUser dateFrom dateTo = []))"
  using assms
  by (auto simp: slot_handler_def isAfter_def add_minutes_def diff_hours_ge_24 Let_def)

lemma slot_handler_200:
  assumes "slot_handler e req = Respond 200 b"
    and "q_dateFrom req = Some dateFrom" and "q_dateTo req = Some dateTo"
    and "users e (q_user req) = Some rawUser"
  shows "b = SlotBody (u_timeZone rawUser)
       (map (busy_of e (u_timeZone rawUser)) (findMany e rawUser dateFrom dateTo))
       (selectedSlots (workingHours rawUser) (req_day e (u_timeZone rawUser) dateFrom)
          (minute_of_day e (u_timeZone rawUser) dateFrom)
          (minute_of_day e (u_timeZone rawUser) dateTo))
       (selectedSlots (workingHours rawUser) (req_day e (u_timeZone rawUser) dateFrom)
          (minute_of_day e (u_timeZone rawUser) dateFrom)
          (minute_of_day e (u_timeZone rawUser) dateTo) \<noteq> [] \<and>
        findMany e rawUser dateFrom dateTo = [])"
  using assms
  by (auto simp: slot_handler_def Let_def split: if_splits)

lemma availability_handler_passed:
  assumes "q_dateFrom req = Some dateFrom" and "q_dateTo req = Some dateTo"
    and "users e (q_user req) = Some rawUser"
    and "dateFrom \<le> dateTo"
  shows "availability_handler e req =
     Respond 200 (AvailabilityBody (u_timeZone rawUser)
       (selectedSlots (workingHours rawUser) (req_day e (u_timeZone rawUser) dateFrom)
          (minute_of_day e (u_timeZone rawUser) dateFrom)
          (minute_of_day e (u_timeZone rawUser) dateTo))
       (selectedSlots (workingHours rawUser) (req_day e (u_timeZone rawUser) dateFrom)
          (minute_of_day e (u_timeZone rawUser) dateFrom)
          (minute_of_day e (u_timeZone rawUser) dateTo) \<noteq> []))"
  using assms
  by (auto simp: availability_handler_def isAfter_def Let_def)

lemma availability_handler_200:
  assumes "availability_handler e req = Respond 200 b"
    and "q_dateFrom req = Some dateFrom" and "q_dateTo req = Some dateTo"
    and "users e (q_user req) = Some rawUser"
  shows "b = AvailabilityBody (u_timeZone rawUser)
       (selectedSlots (workingHours rawUser) (req_day e (u_timeZone rawUser) dateFrom)
          (minute_of_day e (u_timeZone rawUser) dateFrom)
          (minute_of_day e (u_timeZone rawUser) dateTo))
       (selectedSlots (workingHours rawUser) (req_day e (u_timeZone rawUser) dateFrom)
          (minute_of_day e (u_timeZone rawUser) dateFrom)
          (minute_of_day e (u_timeZone rawUser) dateTo) \<noteq> [])"
  using assms
  by (auto simp: availability_handler_def Let_def split: if_splits)

lemma findMany_empty_iff:
  "findMany e rawUser dateFrom dateTo = [] \<longleftrightarrow>
     \<not> (\<exists>b \<in> set (bookings e). b_userId b = u_id rawUser \<and> b_status b = ACCEPTED \<and>
          b_confirmed b \<and> dateFrom \<le> b_startTime b \<and> b_startTime b \<le> dateTo)"
  by (auto simp: findMany_def filter_empty_conv)

subsection \<open>Splitting, parsing and the reducer\<close>

lemma split_no_sep: "sep \<notin> set s \<Longrightarrow> split sep s = [s]"
  by (induction s) auto

lemma js_add_NaN_right: "js_add x NaN = NaN"
  by (cases x) auto

lemma parseInt_undefined: "parseInt None = NaN"
  by (simp add: parseInt_def parseIntString_def isStrWhiteSpaceChar_def isRadixDigit_def
      digitValue_def)

lemma minutes_no_colon:
  "CHR '':'' \<notin> set s \<Longrightarrow>
   js_add (js_mul (parseInt (index (split CHR '':'' s) 0)) (Num 60))
     (parseInt (index (split CHR '':'' s) 1)) = NaN"
  by (simp add: split_no_sep parseInt_undefined js_add_NaN_right)

lemma foldl_append_concat: "foldl (\<lambda>acc d. acc @ f d) acc ds = acc @ concat (map f ds)"
  by (induction ds arbitrary: acc) auto

lemma push_schedule_eq: "push_schedule acc sched = acc @ concat (map (times_of sched) day_names)"
  by (simp add: push_schedule_def foldl_append_concat)

lemma foldl_push_schedule:
  "foldl push_schedule acc ss = acc @ concat (map (\<lambda>sched. concat (map (times_of sched) day_names)) ss)"
  by (induction ss arbitrary: acc) (auto simp: push_schedule_eq)

lemma workhours_eq:
  "workhours rawUser = concat (map (\<lambda>sched. concat (map (times_of sched) day_names)) (u_Schedule rawUser))"
  by (simp add: workhours_def foldl_push_schedule)

lemma entry_in_workhours:
  assumes "sched \<in> set (u_Schedule rawUser)" and "freeBusyTimes sched = Some fb"
    and "(name, idx) \<in> set day_names" and "fb name = Some entries" and "t \<in> set entries"
  shows "time_to_slot idx t \<in> set (workhours rawUser)"
proof -
  have "time_to_slot idx t \<in> set (times_of sched (name, idx))"
    using assms(2,4,5) by (simp add: times_of_def)
  with assms(1,3) show ?thesis
    unfolding workhours_eq by auto
qed

lemma set_sort_insert: "set (sort_insert c x xs) = insert x (set xs)"
  by (induction xs) auto

lemma set_array_sort: "set (array_sort c xs) = set xs"
  by (induction xs) (auto simp: set_sort_insert)

lemma length_sort_insert: "length (sort_insert c x xs) = Suc (length xs)"
  by (induction xs) auto

lemma length_array_sort: "length (array_sort c xs) = length xs"
  by (induction xs) (auto simp: length_sort_insert)

lemma filter_sort_insert:
  "filter (\<lambda>s. startTime s = k) (sort_insert comparefn x xs) =
   filter (\<lambda>s. startTime s = k) (x # xs)"
proof (induction xs)
  case Nil
  show ?case by simp
next
  case (Cons y ys)
  show ?case
  proof (cases "positive (comparefn x y)")
    case True
    then have "startTime x \<noteq> startTime y"
      by (cases "startTime x"; cases "startTime y") (auto simp: comparefn_def)
    with True Cons show ?thesis by auto
  next
    case False
    then show ?thesis by simp
  qed
qed

lemma filter_array_sort:
  "filter (\<lambda>s. startTime s = k) (array_sort comparefn xs) = filter (\<lambda>s. startTime s = k) xs"
  by (induction xs) (simp_all add: filter_sort_insert)

lemma ascending_sort_insert:
  assumes "ascending xs" and "startTime x \<noteq> NaN" and "\<forall>s \<in> set xs. startTime s \<noteq> NaN"
  shows "ascending (sort_insert comparefn x xs)"
  using assms
proof (induction xs)
  case Nil
  then show ?case by (simp add: ascending_def)
next
  case (Cons y ys)
  obtain a where a: "startTime x = Num a"
    using Cons.prems(2) by (cases "startTime x") auto
  obtain b where b: "startTime y = Num b"
    using Cons.prems(3) by (cases "startTime y") auto
  show ?case
  proof (cases "positive (comparefn x y)")
    case True
    with a b have "b < a" by (simp add: comparefn_def)
    moreover have "ascending (sort_insert comparefn x ys)"
      using Cons by (simp add: ascending_def)
    ultimately show ?thesis
      using True Cons.prems(1) a b
      by (auto simp: ascending_def set_sort_insert)
  next
    case False
    with a b have ab: "a \<le> b" by (simp add: comparefn_def)
    have "js_le (startTime x) (startTime s)" if "s \<in> set ys" for s
    proof -
      from that Cons.prems(1) have "js_le (startTime y) (startTime s)"
        by (simp add: ascending_def)
      with ab a b show ?thesis
        by (cases "startTime s") auto
    qed
    with False Cons.prems(1) ab a b show ?thesis
      by (auto simp: ascending_def)
  qed
qed

lemma ascending_array_sort:
  "\<forall>s \<in> set xs. startTime s \<noteq> NaN \<Longrightarrow> ascending (array_sort comparefn xs)"
proof (induction xs)
  case Nil
  show ?case by (simp add: ascending_def)
next
  case (Cons x xs)
  then show ?case
    by (simp add: ascending_sort_insert set_array_sort)
qed

lemma NaN_bound_not_selected:
  "startTime s = NaN \<or> endTime s = NaN \<Longrightarrow> s \<notin> set (selectedSlots wh d fm tm)"
  by (auto simp: set_selectedSlots)

lemma time_to_slot_no_colon:
  "(CHR '':'' \<notin> set (start t) \<longrightarrow> startTime (time_to_slot idx t) = NaN) \<and>
   (CHR '':'' \<notin> set (end' t) \<longrightarrow> endTime (time_to_slot idx t) = NaN)"
  using minutes_no_colon [of "start t"] minutes_no_colon [of "end' t"]
  by (simp add: time_to_slot_def Let_def)

subsection \<open>The example data, evaluated\<close>

lemma time_to_slot_examples:
  "time_to_slot 1 \<lparr>start = ''10:00'', end' = ''11:00''\<rparr> =
     \<lparr>days = [1], startTime = Num 600, endTime = Num 660\<rparr>"
  "time_to_slot 1 \<lparr>start = ''9'', end' = ''17:00''\<rparr> =
     \<lparr>days = [1], startTime = NaN, endTime = Num 1020\<rparr>"
  "time_to_slot 1 \<lparr>start = ''08:00'', end' = ''09:00''\<rparr> =
     \<lparr>days = [1], startTime = Num 480, endTime = Num 540\<rparr>"
  "time_to_slot 1 \<lparr>start = ''13:00'', end' = ''17:00''\<rparr> =
     \<lparr>days = [1], startTime = Num 780, endTime = Num 1020\<rparr>"
  "time_to_slot 1 \<lparr>start = ''09:00'', end' = ''12:00''\<rparr> =
     \<lparr>days = [1], startTime = Num 540, endTime = Num 720\<rparr>"
  "time_to_slot 2 \<lparr>start = ''09:00'', end' = ''11:30''\<rparr> =
     \<lparr>days = [2], startTime = Num 540, endTime = Num 690\<rparr>"
  by (simp_all add: parse_defs)

lemma workhours_bob:
  "workhours bob =
    [\<lparr>days = [1], startTime = Num 600, endTime = Num 660\<rparr>,
     \<lparr>days = [1], startTime = NaN, endTime = Num 1020\<rparr>,
     \<lparr>days = [1], startTime = Num 480, endTime = Num 540\<rparr>]"
  by (simp add: bob_def bob_schedule_def workhours_def push_schedule_def day_names_def
      times_of_def time_to_slot_examples)

lemma workingHours_bob:
  "workingHours bob =
    [\<lparr>days = [1], startTime = Num 600, endTime = Num 660\<rparr>,
     \<lparr>days = [1], startTime = NaN, endTime = Num 1020\<rparr>,
     \<lparr>days = [1], startTime = Num 480, endTime = Num 540\<rparr>]"
  by (simp add: workingHours_def workhours_bob comparefn_def)

lemma workhours_carol:
  "workhours carol =
    [\<lparr>days = [1], startTime = Num 780, endTime = Num 1020\<rparr>,
     \<lparr>days = [1], startTime = Num 540, endTime = Num 720\<rparr>,
     \<lparr>days = [2], startTime = Num 540, endTime = Num 690\<rparr>]"
  by (simp add: carol_def carol_schedule_def workhours_def push_schedule_def day_names_def
      times_of_def time_to_slot_examples)

lemma workingHours_carol:
  "workingHours carol =
    [\<lparr>days = [1], startTime = Num 540, endTime = Num 720\<rparr>,
     \<lparr>days = [2], startTime = Num 540, endTime = Num 690\<rparr>,
     \<lparr>days = [1], startTime = Num 780, endTime = Num 1020\<rparr>]"
  by (simp add: workingHours_def workhours_carol comparefn_def)

lemma workingHours_alice: "workingHours alice = [defaultAvailability alice]"
  by (simp add: workingHours_def workhours_def alice_def)

lemma user_fields:
  "u_timeZone alice = ''UTC''" "u_id alice = 1" "u_minimumBookingNotice alice = 0"
  "u_timeZone bob = ''UTC''" "u_id bob = 2" "u_minimumBookingNotice bob = 0"
  "u_timeZone carol = ''UTC''" "u_id carol = 3" "u_minimumBookingNotice carol = 120"
  by (simp_all add: alice_def bob_def carol_def)

lemmas request_defs =
  db_def early_booking_def half_hour_def whole_day_def empty_window_def long_window_def
  past_window_def inverted_window_def

section \<open>Properties of the endpoints\<close>

text \<open>
  Claim C1. In both variants an interval of the working hours is selected exactly when its
  \<^verbatim>\<open>days\<close> contain the local weekday of \<^verbatim>\<open>dateFrom\<close> and the local minutes of day of
  \<^verbatim>\<open>dateFrom\<close> and of \<^verbatim>\<open>dateTo\<close> both lie between its \<^verbatim>\<open>startTime\<close> and
  \<^verbatim>\<open>endTime\<close>, the bounds included.
\<close>

theorem selected_iff_within_inclusive:
  assumes "q_dateFrom req = Some dateFrom" and "q_dateTo req = Some dateTo"
    and "users e (q_user req) = Some rawUser"
    and "slot_handler e req = Respond 200 (SlotBody z busy sel av) \<or>
         availability_handler e req = Respond 200 (AvailabilityBody z sel av)"
  shows "s \<in> set sel \<longleftrightarrow>
     s \<in> set (workingHours rawUser) \<and>
     req_day e (u_timeZone rawUser) dateFrom \<in> set (days s) \<and>
     (\<exists>lo hi. startTime s = Num lo \<and> endTime s = Num hi \<and>
        lo \<le> minute_of_day e (u_timeZone rawUser) dateFrom \<and>
        minute_of_day e (u_timeZone rawUser) dateFrom \<le> hi \<and>
        lo \<le> minute_of_day e (u_timeZone rawUser) dateTo \<and>
        minute_of_day e (u_timeZone rawUser) dateTo \<le> hi)"
proof -
  have "sel = selectedSlots (workingHours rawUser) (req_day e (u_timeZone rawUser) dateFrom)
          (minute_of_day e (u_timeZone rawUser) dateFrom)
          (minute_of_day e (u_timeZone rawUser) dateTo)"
    using assms(4) slot_handler_200 [OF _ assms(1-3)] availability_handler_200 [OF _ assms(1-3)]
    by blast
  then show ?thesis
    by (simp only: set_selectedSlots)
qed

text \<open>
  On alice's working hours 09:00 to 17:00 the window from 09:00 to 17:00, which meets both
  bounds, selects the interval.
\<close>

theorem selected_iff_within_inclusive_witness:
  "slot_handler db (whole_day ''alice'') =
     Respond 200 (SlotBody ''UTC'' [\<lparr>busy_startTime = 570, busy_endTime = 630\<rparr>]
       [defaultAvailability alice] False) \<and>
   minute_of_day db ''UTC'' 1704704400000 = 540 \<and>
   minute_of_day db ''UTC'' 1704733200000 = 1020 \<and>
   startTime (defaultAvailability alice) = Num 540 \<and>
   endTime (defaultAvailability alice) = Num 1020 \<and>
   defaultAvailability alice \<in> set (workingHours alice) \<and>
   req_day db ''UTC'' 1704704400000 \<in> set (days (defaultAvailability alice))"
proof -
  have h: "slot_handler db (whole_day ''alice'') =
     Respond 200 (SlotBody ''UTC'' [\<lparr>busy_startTime = 570, busy_endTime = 630\<rparr>]
       [defaultAvailability alice] False)"
    by (simp add: slot_handler_def example_defs time_defs builder_defs selectedSlots_def
        array_includes_def findMany_def busy_of_def)
  have "defaultAvailability alice \<in> set [defaultAvailability alice] \<longleftrightarrow>
     defaultAvailability alice \<in> set (workingHours alice) \<and>
     req_day db (u_timeZone alice) 1704704400000 \<in> set (days (defaultAvailability alice)) \<and>
     (\<exists>lo hi. startTime (defaultAvailability alice) = Num lo \<and>
        endTime (defaultAvailability alice) = Num hi \<and>
        lo \<le> minute_of_day db (u_timeZone alice) 1704704400000 \<and>
        minute_of_day db (u_timeZone alice) 1704704400000 \<le> hi \<and>
        lo \<le> minute_of_day db (u_timeZone alice) 1704733200000 \<and>
        minute_of_day db (u_timeZone alice) 1704733200000 \<le> hi)"
    by (rule selected_iff_within_inclusive
          [where e = db and req = "whole_day ''alice''" and rawUser = alice,
            OF _ _ _ disjI1 [OF h]])
       (simp_all add: db_def whole_day_def)
  then have "defaultAvailability alice \<in> set (workingHours alice) \<and>
     req_day db (u_timeZone alice) 1704704400000 \<in> set (days (defaultAvailability alice))"
    by simp
  moreover have "u_timeZone alice = ''UTC''"
    by (simp add: alice_def)
  moreover have "minute_of_day db ''UTC'' 1704704400000 = 540"
    and "minute_of_day db ''UTC'' 1704733200000 = 1020"
    by (simp_all add: db_def time_defs)
  moreover have "startTime (defaultAvailability alice) = Num 540"
    and "endTime (defaultAvailability alice) = Num 1020"
    by (simp_all add: defaultAvailability_def alice_def)
  ultimately show ?thesis
    using h by simp
qed

text \<open>
  Claim C2, as amended. When a request to the slot-fetch variant passes every check, the
  flag \<^verbatim>\<open>available\<close> is true exactly when some interval is selected and no accepted,
  confirmed booking of the user has its start instant inside the closed window from
  \<^verbatim>\<open>dateFrom\<close> to \<^verbatim>\<open>dateTo\<close>. The time of day of such a booking plays no part.
\<close>

theorem available_iff_selected_and_no_booking_starts_in_window:
  assumes "q_dateFrom req = Some dateFrom" and "q_dateTo req = Some dateTo"
    and "users e (q_user req) = Some rawUser"
    and "dateFrom \<le> dateTo" and "dateTo - dateFrom < 86400000"
    and "now e \<le> dateFrom"
    and "u_minimumBookingNotice rawUser = 0 \<or>
         now2 e + u_minimumBookingNotice rawUser * 60000 \<le> dateFrom"
  shows "\<exists>busy sel av.
     slot_handler e req = Respond 200 (SlotBody (u_timeZone rawUser) busy sel av) \<and>
     (av \<longleftrightarrow> sel \<noteq> [] \<and>
        \<not> (\<exists>b \<in> set (bookings e). b_userId b = u_id rawUser \<and> b_status b = ACCEPTED \<and>
             b_confirmed b \<and> dateFrom \<le> b_startTime b \<and> b_startTime b \<le> dateTo))"
  unfolding slot_handler_passed [OF assms] findMany_empty_iff by blast

text \<open>
  For alice the window from 09:00 to 17:00 selects her working hours, and the booking that
  starts at 09:30 makes it unavailable.
\<close>

theorem available_iff_selected_and_no_booking_starts_in_window_witness:
  "slot_handler db (whole_day ''alice'') =
     Respond 200 (SlotBody ''UTC'' [\<lparr>busy_startTime = 570, busy_endTime = 630\<rparr>]
       [defaultAvailability alice] False) \<and>
   early_booking \<in> set (bookings db) \<and> b_userId early_booking = u_id alice \<and>
   b_status early_booking = ACCEPTED \<and> b_confirmed early_booking \<and>
   1704704400000 \<le> b_startTime early_booking \<and> b_startTime early_booking \<le> 1704733200000"
proof -
  have "\<exists>busy sel av.
     slot_handler db (whole_day ''alice'') =
       Respond 200 (SlotBody (u_timeZone alice) busy sel av) \<and>
     (av \<longleftrightarrow> sel \<noteq> [] \<and>
        \<not> (\<exists>b \<in> set (bookings db). b_userId b = u_id alice \<and> b_status b = ACCEPTED \<and>
             b_confirmed b \<and> 1704704400000 \<le> b_startTime b \<and>
             b_startTime b \<le> 1704733200000))"
    by (rule available_iff_selected_and_no_booking_starts_in_window
          [where e = db and req = "whole_day ''alice''" and rawUser = alice])
       (simp_all add: example_defs)
  then obtain busy sel av where
    "slot_handler db (whole_day ''alice'') =
       Respond 200 (SlotBody (u_timeZone alice) busy sel av)"
    by blast
  moreover have "slot_handler db (whole_day ''alice'') =
     Respond 200 (SlotBody ''UTC'' [\<lparr>busy_startTime = 570, busy_endTime = 630\<rparr>]
       [defaultAvailability alice] False)"
    by (simp add: slot_handler_def example_defs time_defs builder_defs selectedSlots_def
        array_includes_def findMany_def busy_of_def)
  ultimately show ?thesis
    by (simp add: example_defs)
qed

text \<open>
  Claim C2 as stated fails: alice's accepted, confirmed booking from 09:30 to 10:30
  touches the window from 10:00 to 10:30, yet the window is reported available, since the
  booking started before the window did.
\<close>

theorem booking_begun_before_window_counterexample:
  "slot_handler db (half_hour ''alice'') =
     Respond 200 (SlotBody ''UTC'' [] [defaultAvailability alice] True) \<and>
   early_booking \<in> set (bookings db) \<and> b_userId early_booking = u_id alice \<and>
   b_status early_booking = ACCEPTED \<and> b_confirmed early_booking \<and>
   touches_window early_booking 1704708000000 1704709800000"
  by (simp add: slot_handler_def example_defs time_defs builder_defs selectedSlots_def
      array_includes_def findMany_def busy_of_def touches_window_def)

text \<open>
  Claim C6. A window of 24 hours or more is answered by the slot-fetch variant with status
  400 and the message that a slot cannot be longer than 24 hours. The availability variant
  has no such rule: on the same window it looks the user up and resolves the slots.
\<close>

theorem too_long_only_in_slot_variant:
  assumes "q_dateFrom req = Some dateFrom" and "q_dateTo req = Some dateTo"
    and "dateTo - dateFrom \<ge> 86400000"
  shows "slot_handler e req =
      Respond 400 (Message ''Cannot book a slot longer than 24 hours.'') \<and>
    availability_handler e req =
      (case users e (q_user req) of
         None \<Rightarrow> Throw ''No user found''
       | Some rawUser \<Rightarrow>
           Respond 200 (AvailabilityBody (u_timeZone rawUser)
             (selectedSlots (workingHours rawUser) (req_day e (u_timeZone rawUser) dateFrom)
                (minute_of_day e (u_timeZone rawUser) dateFrom)
                (minute_of_day e (u_timeZone rawUser) dateTo))
             (selectedSlots (workingHours rawUser) (req_day e (u_timeZone rawUser) dateFrom)
                (minute_of_day e (u_timeZone rawUser) dateFrom)
                (minute_of_day e (u_timeZone rawUser) dateTo) \<noteq> [])))"
proof
  from assms(3) have le: "dateFrom \<le> dateTo" by simp
  with assms show "slot_handler e req =
      Respond 400 (Message ''Cannot book a slot longer than 24 hours.'')"
    by (simp add: slot_handler_def isAfter_def diff_hours_ge_24)
  from le assms(1,2) show "availability_handler e req =
      (case users e (q_user req) of
         None \<Rightarrow> Throw ''No user found''
       | Some rawUser \<Rightarrow>
           Respond 200 (AvailabilityBody (u_timeZone rawUser)
             (selectedSlots (workingHours rawUser) (req_day e (u_timeZone rawUser) dateFrom)
                (minute_of_day e (u_timeZone rawUser) dateFrom)
                (minute_of_day e (u_timeZone rawUser) dateTo))
             (selectedSlots (workingHours rawUser) (req_day e (u_timeZone rawUser) dateFrom)
                (minute_of_day e (u_timeZone rawUser) dateFrom)
                (minute_of_day e (u_timeZone rawUser) dateTo) \<noteq> [])))"
    by (simp add: availability_handler_def isAfter_def Let_def split: option.split)
qed

text \<open>A window of 25 hours for alice: refused by one variant, resolved by the other.\<close>

theorem too_long_only_in_slot_variant_witness:
  "slot_handler db (long_window ''alice'') =
     Respond 400 (Message ''Cannot book a slot longer than 24 hours.'') \<and>
   availability_handler db (long_window ''alice'') =
     Respond 200 (AvailabilityBody ''UTC'' [defaultAvailability alice] True)"
proof -
  have "slot_handler db (long_window ''alice'') =
     Respond 400 (Message ''Cannot book a slot longer than 24 hours.'')"
    using too_long_only_in_slot_variant
        [where req = "long_window ''alice''" and dateFrom = 1704708000000
           and dateTo = 1704798000000 and e = db]
    by (simp add: long_window_def)
  moreover have "availability_handler db (long_window ''alice'') =
     Respond 200 (AvailabilityBody ''UTC'' [defaultAvailability alice] True)"
    by (simp add: availability_handler_def example_defs time_defs builder_defs
        selectedSlots_def array_includes_def)
  ultimately show ?thesis by simp
qed

text \<open>
  Claim C7, as amended. In both variants a request is answered with status 400 and the
  message of an invalid time range exactly when one of the two dates is invalid or
  \<^verbatim>\<open>dateFrom\<close> is strictly after \<^verbatim>\<open>dateTo\<close>. A window whose two instants are equal
  passes this check.
\<close>

theorem invalid_range_iff_invalid_or_inverted:
  "(slot_handler e req = Respond 400 (Message ''Invalid time range given.'') \<longleftrightarrow>
     (case (q_dateFrom req, q_dateTo req) of
        (Some dateFrom, Some dateTo) \<Rightarrow> dateFrom > dateTo
      | _ \<Rightarrow> True)) \<and>
   (availability_handler e req = Respond 400 (Message ''Invalid time range given.'') \<longleftrightarrow>
     (case (q_dateFrom req, q_dateTo req) of
        (Some dateFrom, Some dateTo) \<Rightarrow> dateFrom > dateTo
      | _ \<Rightarrow> True))"
  by (auto simp: slot_handler_def availability_handler_def isAfter_def Let_def
      split: option.splits if_splits)

text \<open>An inverted window is refused by both variants, a window of length zero is not.\<close>

theorem invalid_range_iff_invalid_or_inverted_witness:
  "slot_handler db (inverted_window ''alice'') =
     Respond 400 (Message ''Invalid time range given.'') \<and>
   availability_handler db (inverted_window ''alice'') =
     Respond 400 (Message ''Invalid time range given.'') \<and>
   slot_handler db (empty_window ''alice'') \<noteq>
     Respond 400 (Message ''Invalid time range given.'') \<and>
   availability_handler db (empty_window ''alice'') \<noteq>
     Respond 400 (Message ''Invalid time range given.'')"
  using invalid_range_iff_invalid_or_inverted [of db "inverted_window ''alice''"]
    invalid_range_iff_invalid_or_inverted [of db "empty_window ''alice''"]
  by (simp add: inverted_window_def empty_window_def)

text \<open>
  Claim C7 as stated fails: with \<^verbatim>\<open>dateFrom\<close> equal to \<^verbatim>\<open>dateTo\<close> both variants answer
  with status 200.
\<close>

theorem empty_window_passes_counterexample:
  "slot_handler db (empty_window ''alice'') =
     Respond 200 (SlotBody ''UTC'' [] [defaultAvailability alice] True) \<and>
   availability_handler db (empty_window ''alice'') =
     Respond 200 (AvailabilityBody ''UTC'' [defaultAvailability alice] True) \<and>
   q_dateFrom (empty_window ''alice'') = q_dateTo (empty_window ''alice'')"
  by (simp add: slot_handler_def availability_handler_def example_defs time_defs builder_defs
      selectedSlots_def array_includes_def findMany_def busy_of_def)

text \<open>
  Claim C8. The availability variant refuses a request only for an invalid range. Past
  that check a missing user makes it throw, and for an existing user it answers with status
  200 and the selected intervals whatever the length of the window; the answer does not
  change with the clock, the bookings or the user's minimum booking notice.
\<close>

theorem availability_checks_only_range:
  "(q_dateFrom req = None \<or> q_dateTo req = None \<longrightarrow>
      availability_handler e req = Respond 400 (Message ''Invalid time range given.'')) \<and>
   (q_dateFrom req = Some dateFrom \<and> q_dateTo req = Some dateTo \<and> dateFrom > dateTo \<longrightarrow>
      availability_handler e req = Respond 400 (Message ''Invalid time range given.'')) \<and>
   (q_dateFrom req = Some dateFrom \<and> q_dateTo req = Some dateTo \<and> dateFrom \<le> dateTo \<and>
    users e (q_user req) = None \<longrightarrow>
      availability_handler e req = Throw ''No user found'') \<and>
   (q_dateFrom req = Some dateFrom \<and> q_dateTo req = Some dateTo \<and> dateFrom \<le> dateTo \<and>
    users e (q_user req) = Some rawUser \<longrightarrow>
      availability_handler e req =
        Respond 200 (AvailabilityBody (u_timeZone rawUser)
          (selectedSlots (workingHours rawUser) (req_day e (u_timeZone rawUser) dateFrom)
             (minute_of_day e (u_timeZone rawUser) dateFrom)
             (minute_of_day e (u_timeZone rawUser) dateTo))
          (selectedSlots (workingHours rawUser) (req_day e (u_timeZone rawUser) dateFrom)
             (minute_of_day e (u_timeZone rawUser) dateFrom)
             (minute_of_day e (u_timeZone rawUser) dateTo) \<noteq> [])) \<and>
      availability_handler
        (e\<lparr>users := (users e)(q_user req \<mapsto> rawUser\<lparr>u_minimumBookingNotice := notice\<rparr>),
           bookings := bs, now := n, now2 := n2\<rparr>) req = availability_handler e req)"
  by (auto simp: availability_handler_def isAfter_def Let_def req_day_def minute_of_day_def
      tz_def builder_defs split: option.splits)

text \<open>
  Nobody is looked up over 25 hours, and carol, who asks for two hours of notice, over a
  window that the clock has passed.
\<close>

theorem availability_checks_only_range_witness:
  "availability_handler db (long_window ''nobody'') = Throw ''No user found'' \<and>
   availability_handler db (past_window ''carol'') =
     Respond 200 (AvailabilityBody ''UTC'' [] False) \<and>
   availability_handler db (inverted_window ''carol'') =
     Respond 400 (Message ''Invalid time range given.'')"
proof -
  have "users db (q_user (long_window ''nobody'')) = None"
    by (simp add: db_def long_window_def)
  moreover have "users db (q_user (past_window ''carol'')) = Some carol"
    by (simp add: db_def past_window_def)
  moreover have "selectedSlots (workingHours carol) (req_day db ''UTC'' 1704690000000)
       (minute_of_day db ''UTC'' 1704690000000) (minute_of_day db ''UTC'' 1704691800000) = []"
    by (simp add: workingHours_carol db_def time_defs selectedSlots_def array_includes_def)
  moreover have "u_timeZone carol = ''UTC''"
    by (simp add: carol_def)
  ultimately show ?thesis
    using availability_checks_only_range
        [where req = "long_window ''nobody''" and dateFrom = 1704708000000 and dateTo = 1704798000000 and e = db]
      availability_checks_only_range
        [where req = "past_window ''carol''" and dateFrom = 1704690000000 and dateTo = 1704691800000 and e = db and rawUser = carol]
      availability_checks_only_range
        [where req = "inverted_window ''carol''" and dateFrom = 1704709800000 and dateTo = 1704708000000 and e = db]
    by (simp add: long_window_def past_window_def inverted_window_def)
qed

text \<open>
  Claim C9. The slot-fetch variant looks the user up after the two checks of the range and
  before the checks against the clock: an invalid or oversized range gives the range error
  whether or not the user exists, a user that does not exist gives status 404 even when
  \<^verbatim>\<open>dateFrom\<close> is in the past, and only an existing user is told that the time is past.
\<close>

theorem slot_user_lookup_between_range_and_clock_checks:
  "(q_dateFrom req = None \<or> q_dateTo req = None \<longrightarrow>
      slot_handler e req = Respond 400 (Message ''Invalid time range given.'')) \<and>
   (q_dateFrom req = Some dateFrom \<and> q_dateTo req = Some dateTo \<longrightarrow>
     (dateFrom > dateTo \<longrightarrow>
        slot_handler e req = Respond 400 (Message ''Invalid time range given.'')) \<and>
     (dateTo - dateFrom \<ge> 86400000 \<longrightarrow>
        slot_handler e req =
          Respond 400 (Message ''Cannot book a slot longer than 24 hours.'')) \<and>
     (dateFrom \<le> dateTo \<and> dateTo - dateFrom < 86400000 \<and> users e (q_user req) = None \<longrightarrow>
        slot_handler e req = Respond 404 (Message ''No User Found'')) \<and>
     (dateFrom \<le> dateTo \<and> dateTo - dateFrom < 86400000 \<and> users e (q_user req) \<noteq> None \<and>
      now e > dateFrom \<longrightarrow>
        slot_handler e req = Respond 400 (Message ''Cannot book past time.'')))"
proof -
  have "dateFrom \<le> dateTo \<Longrightarrow>
      (24 \<le> diff_hours dateTo dateFrom) = (86400000 \<le> dateTo - dateFrom)"
    by (rule diff_hours_ge_24)
  then show ?thesis
    by (auto simp: slot_handler_def isAfter_def split: option.splits)
qed

text \<open>
  No user is called nobody, and the clock has passed 05:00: the range errors and the
  status 404 come first, the past-time error goes to alice.
\<close>

theorem slot_user_lookup_between_range_and_clock_checks_witness:
  "users db ''nobody'' = None \<and> now db > 1704690000000 \<and>
   slot_handler db (inverted_window ''nobody'') =
     Respond 400 (Message ''Invalid time range given.'') \<and>
   slot_handler db (long_window ''nobody'') =
     Respond 400 (Message ''Cannot book a slot longer than 24 hours.'') \<and>
   slot_handler db (past_window ''nobody'') = Respond 404 (Message ''No User Found'') \<and>
   slot_handler db (past_window ''alice'') = Respond 400 (Message ''Cannot book past time.'')"
  using slot_user_lookup_between_range_and_clock_checks
        [where req = "inverted_window ''nobody''" and dateFrom = 1704709800000 and dateTo = 1704708000000 and e = db]
    slot_user_lookup_between_range_and_clock_checks
        [where req = "long_window ''nobody''" and dateFrom = 1704708000000 and dateTo = 1704798000000 and e = db]
    slot_user_lookup_between_range_and_clock_checks
        [where req = "past_window ''nobody''" and dateFrom = 1704690000000 and dateTo = 1704691800000 and e = db]
    slot_user_lookup_between_range_and_clock_checks
        [where req = "past_window ''alice''" and dateFrom = 1704690000000 and dateTo = 1704691800000 and e = db]
  by (simp add: inverted_window_def long_window_def past_window_def db_def)

text \<open>
  Claim C4. A user without schedule rows has no parsed interval. When no interval was
  parsed the builder returns exactly one interval, on the days 0 to 6 with the user's stored
  start and end; when some interval was parsed it returns the parsed intervals, sorted, and
  nothing else.
\<close>

theorem default_exactly_when_nothing_parsed:
  "(u_Schedule rawUser = [] \<longrightarrow> workhours rawUser = []) \<and>
   (workhours rawUser = [] \<longrightarrow>
      workingHours rawUser =
        [\<lparr>days = [0, 1, 2, 3, 4, 5, 6], startTime = Num (u_startTime rawUser),
          endTime = Num (u_endTime rawUser)\<rparr>]) \<and>
   (workhours rawUser \<noteq> [] \<longrightarrow>
      workingHours rawUser = array_sort comparefn (workhours rawUser) \<and>
      set (workingHours rawUser) = set (workhours rawUser) \<and>
      length (workingHours rawUser) = length (workhours rawUser))"
  by (simp add: workingHours_def defaultAvailability_def set_array_sort length_array_sort
      workhours_def)

text \<open>The default for alice, who has no schedule, and the three parsed intervals for carol.\<close>

theorem default_exactly_when_nothing_parsed_witness:
  "u_Schedule alice = [] \<and>
   workingHours alice = [\<lparr>days = [0, 1, 2, 3, 4, 5, 6], startTime = Num 540, endTime = Num 1020\<rparr>] \<and>
   workhours carol \<noteq> [] \<and>
   workingHours carol =
    [\<lparr>days = [1], startTime = Num 540, endTime = Num 720\<rparr>,
     \<lparr>days = [2], startTime = Num 540, endTime = Num 690\<rparr>,
     \<lparr>days = [1], startTime = Num 780, endTime = Num 1020\<rparr>]"
proof -
  have "workhours carol =
    [\<lparr>days = [1], startTime = Num 780, endTime = Num 1020\<rparr>,
     \<lparr>days = [1], startTime = Num 540, endTime = Num 720\<rparr>,
     \<lparr>days = [2], startTime = Num 540, endTime = Num 690\<rparr>]"
    by (rule workhours_carol)
  then show ?thesis
    using default_exactly_when_nothing_parsed [of alice]
      default_exactly_when_nothing_parsed [of carol]
    by (simp add: alice_def comparefn_def)
qed

text \<open>
  Claim C5, as amended. When every parsed start time is a number, the builder's output is
  in ascending order of \<^verbatim>\<open>startTime\<close> and the intervals of any one start time keep
  the order in which they were met. In every case the selected slots are a subsequence of
  the builder's output.
\<close>

theorem numeric_hours_sorted_stable_selection_subseq:
  "((\<forall>s \<in> set (workhours rawUser). startTime s \<noteq> NaN) \<longrightarrow>
      ascending (workingHours rawUser) \<and>
      filter (\<lambda>s. startTime s = k) (workingHours rawUser) =
        filter (\<lambda>s. startTime s = k)
          (if workhours rawUser = [] then [defaultAvailability rawUser]
           else workhours rawUser)) \<and>
   subseq (selectedSlots (workingHours rawUser) d fm tm) (workingHours rawUser)"
proof -
  have "subseq (selectedSlots (workingHours rawUser) d fm tm) (workingHours rawUser)"
    by (simp add: selectedSlots_def)
  moreover have "startTime (defaultAvailability rawUser) \<noteq> NaN"
    by (simp add: defaultAvailability_def)
  ultimately show ?thesis
    by (simp add: workingHours_def ascending_array_sort filter_array_sort)
qed

text \<open>
  Carol's Monday afternoon is parsed first and sorted last; her two intervals from 09:00
  stay in the order Monday, Tuesday.
\<close>

theorem numeric_hours_sorted_stable_selection_subseq_witness:
  "workhours carol =
    [\<lparr>days = [1], startTime = Num 780, endTime = Num 1020\<rparr>,
     \<lparr>days = [1], startTime = Num 540, endTime = Num 720\<rparr>,
     \<lparr>days = [2], startTime = Num 540, endTime = Num 690\<rparr>] \<and>
   ascending (workingHours carol) \<and>
   filter (\<lambda>s. startTime s = Num 540) (workingHours carol) =
    [\<lparr>days = [1], startTime = Num 540, endTime = Num 720\<rparr>,
     \<lparr>days = [2], startTime = Num 540, endTime = Num 690\<rparr>] \<and>
   subseq (selectedSlots (workingHours carol) 1 600 630) (workingHours carol)"
proof -
  have "workhours carol =
    [\<lparr>days = [1], startTime = Num 780, endTime = Num 1020\<rparr>,
     \<lparr>days = [1], startTime = Num 540, endTime = Num 720\<rparr>,
     \<lparr>days = [2], startTime = Num 540, endTime = Num 690\<rparr>]"
    by (rule workhours_carol)
  then show ?thesis
    using numeric_hours_sorted_stable_selection_subseq [of carol "Num 540" 1 600 630]
    by simp
qed

text \<open>
  Claim C5 as stated fails: bob's entry with the start string \<^verbatim>\<open>"9"\<close> has the start time
  \<^verbatim>\<open>NaN\<close>, compares as equal to both its neighbours, and leaves 10:00 before 08:00.
  In whatever order a sort returns these three intervals, the one that starts at \<^verbatim>\<open>NaN\<close>
  is not less than or equal to its neighbour, so no order of them is ascending.
\<close>

theorem NaN_start_unsorted_counterexample:
  "workingHours bob =
    [\<lparr>days = [1], startTime = Num 600, endTime = Num 660\<rparr>,
     \<lparr>days = [1], startTime = NaN, endTime = Num 1020\<rparr>,
     \<lparr>days = [1], startTime = Num 480, endTime = Num 540\<rparr>] \<and>
   \<not> ascending (workingHours bob)"
  by (simp add: workingHours_bob ascending_def)

text \<open>
  Claim C3, as amended. An entry whose start or end string has no colon does not make the
  builder fail: the entry is in the builder's output as an interval of its weekday with
  \<^verbatim>\<open>NaN\<close> for that bound, and the availability variant answers a request for this user
  with status 200 once the range is valid.
\<close>

theorem entry_without_minute_yields_NaN_interval_not_error:
  assumes "sched \<in> set (u_Schedule rawUser)" and "freeBusyTimes sched = Some fb"
    and "(name, idx) \<in> set day_names" and "fb name = Some entries" and "t \<in> set entries"
    and "q_dateFrom req = Some dateFrom" and "q_dateTo req = Some dateTo"
    and "dateFrom \<le> dateTo" and "users e (q_user req) = Some rawUser"
  shows "(\<exists>sel av. availability_handler e req =
            Respond 200 (AvailabilityBody (u_timeZone rawUser) sel av)) \<and>
    time_to_slot idx t \<in> set (workingHours rawUser) \<and>
    days (time_to_slot idx t) = [idx] \<and>
    (CHR '':'' \<notin> set (start t) \<longrightarrow> startTime (time_to_slot idx t) = NaN) \<and>
    (CHR '':'' \<notin> set (end' t) \<longrightarrow> endTime (time_to_slot idx t) = NaN)"
proof -
  have emitted: "time_to_slot idx t \<in> set (workhours rawUser)"
    using assms(1-5) by (rule entry_in_workhours)
  then have "workhours rawUser \<noteq> []"
    by auto
  with emitted have "time_to_slot idx t \<in> set (workingHours rawUser)"
    by (simp add: workingHours_def set_array_sort)
  moreover have "days (time_to_slot idx t) = [idx]"
    by (simp add: time_to_slot_def Let_def)
  ultimately show ?thesis
    using time_to_slot_no_colon [of t idx] availability_handler_passed [OF assms(6,7,9,8)]
    by simp
qed

text \<open>Bob is looked up on Monday from 10:00 to 10:30.\<close>

theorem entry_without_minute_yields_NaN_interval_not_error_witness:
  "availability_handler db (half_hour ''bob'') =
     Respond 200 (AvailabilityBody ''UTC''
       [\<lparr>days = [1], startTime = Num 600, endTime = Num 660\<rparr>] True) \<and>
   \<lparr>days = [1], startTime = NaN, endTime = Num 1020\<rparr> \<in> set (workingHours bob)"
proof -
  have slot: "time_to_slot 1 \<lparr>start = ''9'', end' = ''17:00''\<rparr> =
     \<lparr>days = [1], startTime = NaN, endTime = Num 1020\<rparr>"
    by (simp add: time_to_slot_examples)
  have "(\<exists>sel av. availability_handler db (half_hour ''bob'') =
            Respond 200 (AvailabilityBody (u_timeZone bob) sel av)) \<and>
    time_to_slot 1 \<lparr>start = ''9'', end' = ''17:00''\<rparr> \<in> set (workingHours bob) \<and>
    days (time_to_slot 1 \<lparr>start = ''9'', end' = ''17:00''\<rparr>) = [1] \<and>
    (CHR '':'' \<notin> set (start \<lparr>start = ''9'', end' = ''17:00''\<rparr>) \<longrightarrow>
       startTime (time_to_slot 1 \<lparr>start = ''9'', end' = ''17:00''\<rparr>) = NaN) \<and>
    (CHR '':'' \<notin> set (end' \<lparr>start = ''9'', end' = ''17:00''\<rparr>) \<longrightarrow>
       endTime (time_to_slot 1 \<lparr>start = ''9'', end' = ''17:00''\<rparr>) = NaN)"
    by (rule entry_without_minute_yields_NaN_interval_not_error
          [where sched = bob_schedule and name = "''monday''"
             and fb = "[''monday'' \<mapsto>
               [\<lparr>start = ''10:00'', end' = ''11:00''\<rparr>,
                \<lparr>start = ''9'', end' = ''17:00''\<rparr>,
                \<lparr>start = ''08:00'', end' = ''09:00''\<rparr>]]"
             and entries = "[\<lparr>start = ''10:00'', end' = ''11:00''\<rparr>,
                \<lparr>start = ''9'', end' = ''17:00''\<rparr>,
                \<lparr>start = ''08:00'', end' = ''09:00''\<rparr>]"
             and dateFrom = 1704708000000 and dateTo = 1704709800000])
       (simp_all add: bob_def bob_schedule_def day_names_def db_def half_hour_def)
  moreover have "availability_handler db (half_hour ''bob'') =
     Respond 200 (AvailabilityBody ''UTC''
       [\<lparr>days = [1], startTime = Num 600, endTime = Num 660\<rparr>] True)"
    by (simp add: availability_handler_def request_defs user_fields time_defs
        workingHours_bob selectedSlots_def array_includes_def)
  ultimately show ?thesis
    using slot by simp
qed

text \<open>
  Claim C3 as stated fails: with the start string \<^verbatim>\<open>"9"\<close> in bob's schedule the builder
  returns three intervals and both variants answer with status 200.
\<close>

theorem entry_without_minute_answered_counterexample:
  "workingHours bob =
    [\<lparr>days = [1], startTime = Num 600, endTime = Num 660\<rparr>,
     \<lparr>days = [1], startTime = NaN, endTime = Num 1020\<rparr>,
     \<lparr>days = [1], startTime = Num 480, endTime = Num 540\<rparr>] \<and>
   availability_handler db (half_hour ''bob'') =
     Respond 200 (AvailabilityBody ''UTC''
       [\<lparr>days = [1], startTime = Num 600, endTime = Num 660\<rparr>] True) \<and>
   slot_handler db (half_hour ''bob'') =
     Respond 200 (SlotBody ''UTC'' []
       [\<lparr>days = [1], startTime = Num 600, endTime = Num 660\<rparr>] True)"
  by (simp add: availability_handler_def slot_handler_def request_defs user_fields time_defs
      workingHours_bob selectedSlots_def array_includes_def findMany_def)

text \<open>
  Claim C10. An entry whose start or end string has no colon still becomes an interval of
  the parsed list, with \<^verbatim>\<open>NaN\<close> for that bound; no request window selects this interval
  from any list; and the parsed list is then not empty, so the builder sorts it and does not
  fall back to the default.
\<close>

theorem entry_without_minute_emitted_unmatched_suppresses_default:
  assumes "sched \<in> set (u_Schedule rawUser)" and "freeBusyTimes sched = Some fb"
    and "(name, idx) \<in> set day_names" and "fb name = Some entries" and "t \<in> set entries"
    and "CHR '':'' \<notin> set (start t) \<or> CHR '':'' \<notin> set (end' t)"
  shows "time_to_slot idx t \<in> set (workhours rawUser) \<and>
    (CHR '':'' \<notin> set (start t) \<longrightarrow> startTime (time_to_slot idx t) = NaN) \<and>
    (CHR '':'' \<notin> set (end' t) \<longrightarrow> endTime (time_to_slot idx t) = NaN) \<and>
    time_to_slot idx t \<notin> set (selectedSlots wh d fm tm) \<and>
    workhours rawUser \<noteq> [] \<and>
    workingHours rawUser = array_sort comparefn (workhours rawUser)"
proof -
  have emitted: "time_to_slot idx t \<in> set (workhours rawUser)"
    using assms(1-5) by (rule entry_in_workhours)
  then have nonempty: "workhours rawUser \<noteq> []"
    by auto
  have "startTime (time_to_slot idx t) = NaN \<or> endTime (time_to_slot idx t) = NaN"
    using assms(6) time_to_slot_no_colon [of t idx] by blast
  then have "time_to_slot idx t \<notin> set (selectedSlots wh d fm tm)"
    by (rule NaN_bound_not_selected)
  with emitted nonempty show ?thesis
    using time_to_slot_no_colon [of t idx] by (simp add: workingHours_def)
qed

text \<open>Bob's entry from \<^verbatim>\<open>"9"\<close> to \<^verbatim>\<open>"17:00"\<close> on Monday.\<close>

theorem entry_without_minute_emitted_unmatched_suppresses_default_witness:
  "time_to_slot 1 \<lparr>start = ''9'', end' = ''17:00''\<rparr> =
     \<lparr>days = [1], startTime = NaN, endTime = Num 1020\<rparr> \<and>
   \<lparr>days = [1], startTime = NaN, endTime = Num 1020\<rparr> \<in> set (workhours bob) \<and>
   \<lparr>days = [1], startTime = NaN, endTime = Num 1020\<rparr> \<notin>
     set (selectedSlots (workingHours bob) 1 600 630) \<and>
   workhours bob \<noteq> [] \<and>
   defaultAvailability bob \<notin> set (workingHours bob)"
proof -
  have slot: "time_to_slot 1 \<lparr>start = ''9'', end' = ''17:00''\<rparr> =
     \<lparr>days = [1], startTime = NaN, endTime = Num 1020\<rparr>"
    by (simp add: time_to_slot_examples)
  have "time_to_slot 1 \<lparr>start = ''9'', end' = ''17:00''\<rparr> \<in> set (workhours bob) \<and>
    (CHR '':'' \<notin> set (start \<lparr>start = ''9'', end' = ''17:00''\<rparr>) \<longrightarrow>
       startTime (time_to_slot 1 \<lparr>start = ''9'', end' = ''17:00''\<rparr>) = NaN) \<and>
    (CHR '':'' \<notin> set (end' \<lparr>start = ''9'', end' = ''17:00''\<rparr>) \<longrightarrow>
       endTime (time_to_slot 1 \<lparr>start = ''9'', end' = ''17:00''\<rparr>) = NaN) \<and>
    time_to_slot 1 \<lparr>start = ''9'', end' = ''17:00''\<rparr> \<notin>
       set (selectedSlots (workingHours bob) 1 600 630) \<and>
    workhours bob \<noteq> [] \<and>
    workingHours bob = array_sort comparefn (workhours bob)"
    by (rule entry_without_minute_emitted_unmatched_suppresses_default
          [where sched = bob_schedule and name = "''monday''"
             and fb = "[''monday'' \<mapsto>
               [\<lparr>start = ''10:00'', end' = ''11:00''\<rparr>,
                \<lparr>start = ''9'', end' = ''17:00''\<rparr>,
                \<lparr>start = ''08:00'', end' = ''09:00''\<rparr>]]"
             and entries = "[\<lparr>start = ''10:00'', end' = ''11:00''\<rparr>,
                \<lparr>start = ''9'', end' = ''17:00''\<rparr>,
                \<lparr>start = ''08:00'', end' = ''09:00''\<rparr>]"])
       (simp_all add: bob_def bob_schedule_def day_names_def)
  then have "\<lparr>days = [1], startTime = NaN, endTime = Num 1020\<rparr> \<in> set (workhours bob) \<and>
    \<lparr>days = [1], startTime = NaN, endTime = Num 1020\<rparr> \<notin>
      set (selectedSlots (workingHours bob) 1 600 630) \<and>
    workhours bob \<noteq> []"
    unfolding slot by blast
  moreover have "defaultAvailability bob \<notin> set (workingHours bob)"
    by (simp add: workingHours_bob defaultAvailability_def)
  ultimately show ?thesis
    using slot by blast
qed

end
